theory Spec2Isabelle
  imports Main "HOL-Library.Word" "HOL-Library.State_Monad"
begin

section \<open>JavaScript values\<close>

text \<open>
  The values that reach the logger: arguments of the output methods and the values stored
  under the keys of a rules object. \<open>JNum\<close> holds an integer \<open>n\<close> with
  \<open>- 2 ^ 53 \<le> n < 2 ^ 53\<close>, read with \<open>sint\<close>: each of these is a number of JavaScript and its
  \<open>toString\<close> is the decimal numeral. \<open>JObj\<close> is a plain object given by its own data
  properties in insertion order. \<open>JElement\<close> is a DOM element, given by the name of its
  interface (\<open>HTMLDivElement\<close>, ...) and, for the interfaces that have a stringifier
  (\<open>a\<close> and \<open>area\<close> elements), the \<open>href\<close> that it returns.
\<close>

datatype jsval =
    JUndefined
  | JNull
  | JBool bool
  | JNum "54 word"
  | JStr string
  | JArr "jsval list"
  | JObj "(string \<times> jsval) list"
  | JElement string "string option"

text \<open>
  An object used as a dictionary of rules: a missing key reads as \<open>undefined\<close>. (A key
  that a JavaScript object inherits, such as \<open>toString\<close>, reads as a function, which is
  neither a boolean nor \<open>false\<close>; \<open>isActivated\<close> treats it as it treats \<open>undefined\<close>.)
\<close>

type_synonym jsobj = "string \<rightharpoonup> jsval"

definition getprop :: "jsobj \<Rightarrow> string \<Rightarrow> jsval" where
  "getprop obj key = (case obj key of None \<Rightarrow> JUndefined | Some v \<Rightarrow> v)"

text \<open>The conversion to boolean that \<open>!x\<close> and \<open>if (x)\<close> apply.\<close>

fun truthy :: "jsval \<Rightarrow> bool" where
  "truthy JUndefined = False"
| "truthy JNull = False"
| "truthy (JBool b) = b"
| "truthy (JNum n) = (n \<noteq> 0)"
| "truthy (JStr s) = (s \<noteq> [])"
| "truthy (JArr xs) = True"
| "truthy (JObj kvs) = True"
| "truthy (JElement c href) = True"

subsection \<open>The type predicates of the validation package\<close>

text \<open>
  Modelled from the spec: the package \<open>@~lisfan/validation\<close> that the logger imports is
  not part of the repository. Its predicates are the type tests their names and the spec
  describe: boolean-typed, string-typed, array-typed, plain-object-typed, DOM element.
\<close>

fun isBoolean :: "jsval \<Rightarrow> bool" where
  "isBoolean (JBool b) = True"
| "isBoolean v = False"

fun isString :: "jsval \<Rightarrow> bool" where
  "isString (JStr s) = True"
| "isString v = False"

fun isArray :: "jsval \<Rightarrow> bool" where
  "isArray (JArr xs) = True"
| "isArray v = False"

fun isPlainObject :: "jsval \<Rightarrow> bool" where
  "isPlainObject (JObj kvs) = True"
| "isPlainObject v = False"

fun isElement :: "jsval \<Rightarrow> bool" where
  "isElement (JElement c href) = True"
| "isElement v = False"

section \<open>The logger with rules and default options (since 1.3.0)\<close>

text \<open>
  The options of an instance and the static default options, with the documented types
  \<open>{string} name\<close> and \<open>{boolean} debug\<close>; an options object passed by a caller may leave
  either out.
\<close>

record options =
  name :: string
  debug :: bool

record options_patch =
  name_opt :: "string option"
  debug_opt :: "bool option"

text \<open>Object spread \<open>{...base, ...patch}\<close> on options.\<close>

definition spread_options :: "options \<Rightarrow> options_patch \<Rightarrow> options" where
  "spread_options base patch =
     \<lparr> name = (case name_opt patch of None \<Rightarrow> name base | Some n \<Rightarrow> n),
       debug = (case debug_opt patch of None \<Rightarrow> debug base | Some d \<Rightarrow> d) \<rparr>"

definition spread_patch :: "options_patch option \<Rightarrow> options_patch \<Rightarrow> options_patch" where
  "spread_patch base patch =
     (case base of
        None \<Rightarrow> patch
      | Some b \<Rightarrow>
          \<lparr> name_opt = (case name_opt patch of None \<Rightarrow> name_opt b | Some n \<Rightarrow> Some n),
            debug_opt = (case debug_opt patch of None \<Rightarrow> debug_opt b | Some d \<Rightarrow> Some d) \<rparr>)"

text \<open>
  The state of the module: the two constants read from \<open>localStorage\<close> when the module
  is loaded, the static fields \<open>Logger.rules\<close> and \<open>Logger.options\<close>, and the properties
  \<open>rules\<close> and \<open>options\<close> of the host's global object \<open>self\<close> (absent until written).
  The static methods \<open>configRules\<close> and \<open>config\<close> bind \<open>const ctr = self\<close>; no binding of
  \<open>self\<close> is in scope there (the only ones are parameters of the functions of
  \<open>_actions\<close>), so the identifier denotes the global object of the browser or worker,
  and the assignments \<open>ctr.rules = ...\<close> and \<open>ctr.options = ...\<close> write its properties.
  (Version 1.2.0 binds \<open>const ctor = this\<close> and assigns module variables; the source
  published with the documentation assigns \<open>Logger.rules\<close> and \<open>Logger.options\<close>.)
\<close>

record logger_module =
  IS_DEV :: jsval
  LOGGER_RULES :: jsobj
  Logger_rules :: jsobj
  Logger_options :: options
  self_rules :: "jsobj option"
  self_options :: "options_patch option"

text \<open>
  The state after the module is loaded: \<open>is_dev\<close> is the value of
  \<open>JSON.parse(localStorage.getItem('IS_DEV')) || process.env.NODE_ENV === 'development'\<close>
  and \<open>stored_rules\<close> the object of \<open>JSON.parse(localStorage.getItem('LOGGER_RULES')) || {}\<close>.
\<close>

definition load_module :: "jsval \<Rightarrow> jsobj \<Rightarrow> logger_module" where
  "load_module is_dev stored_rules =
     \<lparr> IS_DEV = is_dev,
       LOGGER_RULES = stored_rules,
       Logger_rules = stored_rules,
       Logger_options = \<lparr> name = ''logger'', debug = True \<rparr>,
       self_rules = None,
       self_options = None \<rparr>"

definition spread_obj :: "jsobj option \<Rightarrow> jsobj" where
  "spread_obj obj = (case obj of None \<Rightarrow> Map.empty | Some m \<Rightarrow> m)"

definition configRules :: "jsobj \<Rightarrow> logger_module \<Rightarrow> logger_module" where
  "configRules rules g =
     g \<lparr> self_rules := Some (spread_obj (self_rules g) ++ rules ++ LOGGER_RULES g) \<rparr>"

definition config :: "options_patch \<Rightarrow> logger_module \<Rightarrow> logger_module" where
  "config opts g = g \<lparr> self_options := Some (spread_patch (self_options g) opts) \<rparr>"

record logger =
  dollar_options :: options

definition dollar_name :: "logger \<Rightarrow> string" where
  "dollar_name this = name (dollar_options this)"

definition dollar_debug :: "logger \<Rightarrow> bool" where
  "dollar_debug this = debug (dollar_options this)"

text \<open>
  \<open>new Logger(options)\<close>: a namespace string (\<open>Inl\<close>) or an options object (\<open>Inr\<close>; a call
  without argument spreads \<open>undefined\<close>, which adds nothing).
\<close>

definition constructor :: "logger_module \<Rightarrow> string + options_patch \<Rightarrow> logger" where
  "constructor g opts =
     (case opts of
        Inl s \<Rightarrow> \<lparr> dollar_options = (Logger_options g) \<lparr> name := s \<rparr> \<rparr>
      | Inr p \<Rightarrow> \<lparr> dollar_options = spread_options (Logger_options g) p \<rparr>)"

text \<open>
  \<open>isActivated(method)\<close>; \<open>None\<close> is a call without argument. \<open>if (method)\<close> is false for
  the empty string too.
\<close>

definition isActivated :: "logger_module \<Rightarrow> logger \<Rightarrow> string option \<Rightarrow> bool" where
  "isActivated g this method =
     (if \<not> truthy (IS_DEV g) then False
      else
        let status = getprop (Logger_rules g) (dollar_name this);
            status =
              (case method of
                 None \<Rightarrow> status
               | Some m \<Rightarrow>
                   if m \<noteq> [] then
                     (let subStatus = getprop (Logger_rules g) (dollar_name this @ ''.'' @ m)
                      in if isBoolean subStatus then subStatus else status)
                   else status)
        in if status = JBool False then False
           else if \<not> dollar_debug this then False
           else True)"

definition enable :: "logger \<Rightarrow> logger" where
  "enable this = this \<lparr> dollar_options := (dollar_options this) \<lparr> debug := True \<rparr> \<rparr>"

definition disable :: "logger \<Rightarrow> logger" where
  "disable this = this \<lparr> dollar_options := (dollar_options this) \<lparr> debug := False \<rparr> \<rparr>"

subsection \<open>Textual conversion and \<open>error\<close>\<close>

fun show_nat :: "nat \<Rightarrow> string" where
  "show_nat n =
     (if n < 10 then [''0123456789'' ! n]
      else show_nat (n div 10) @ [''0123456789'' ! (n mod 10)])"

definition show_int :: "int \<Rightarrow> string" where
  "show_int i = (if i < 0 then ''-'' @ show_nat (nat (- i)) else show_nat (nat i))"

text \<open>\<open>Array.prototype.join\<close> on an array of strings.\<close>

fun join :: "string \<Rightarrow> string list \<Rightarrow> string" where
  "join sep [] = []"
| "join sep [x] = x"
| "join sep (x # y # ys) = x @ sep @ join sep (y # ys)"

text \<open>
  The method call \<open>value.toString()\<close>; \<open>None\<close> is the \<open>TypeError\<close> of a value that has no
  callable \<open>toString\<close>: \<open>undefined\<close>, \<open>null\<close>, and a plain object whose own data property
  \<open>toString\<close> hides the inherited method. An array joins its elements with a comma, an
  \<open>undefined\<close> or \<open>null\<close> element giving the empty string.
\<close>

fun toString :: "jsval \<Rightarrow> string option" where
  "toString JUndefined = None"
| "toString JNull = None"
| "toString (JBool b) = Some (if b then ''true'' else ''false'')"
| "toString (JNum n) = Some (show_int (sint n))"
| "toString (JStr s) = Some s"
| "toString (JArr xs) =
     map_option (join '','')
       (those (map (\<lambda>x. if x = JUndefined \<or> x = JNull then Some [] else toString x) xs))"
| "toString (JObj kvs) =
     (if ''toString'' \<in> fst ` set kvs then None else Some ''[object Object]'')"
| "toString (JElement c href) =
     Some (case href of None \<Rightarrow> ''[object '' @ c @ '']'' | Some url \<Rightarrow> url)"

text \<open>
  What a method throws. The message of a \<open>TypeError\<close> is the engine's own and is not
  modelled.
\<close>

datatype failure = Error string | TypeError

text \<open>
  The calls that reached the host console, oldest first: the name of the console method
  and its arguments.
\<close>

type_synonym console = "(string \<times> jsval list) list"

definition console_call :: "string \<Rightarrow> jsval list \<Rightarrow> console \<Rightarrow> console" where
  "console_call method args c = c @ [(method, args)]"

text \<open>
  \<open>error(...args)\<close>, the same text in every revision whose class declares the method
  (the oldest class, which builds its methods from a table, has none). \<open>args.map\<close>
  converts from left to right and stops at the first argument whose conversion throws.
\<close>

definition error :: "jsval list \<Rightarrow> console \<Rightarrow> failure + console" where
  "error args c =
     (case those (map toString args) of
        None \<Rightarrow> Inl TypeError
      | Some strs \<Rightarrow> (let message = join '' '' strs in Inl (Error message)))"

subsection \<open>Output methods\<close>

definition logProxyRun ::
  "logger_module \<Rightarrow> logger \<Rightarrow> string \<Rightarrow> string \<Rightarrow> jsval list \<Rightarrow> console \<Rightarrow> console" where
  "logProxyRun g self method color args c =
     (if \<not> isActivated g self (Some method) then c
      else
        let formatStr = ''%c['' @ dollar_name self @ '']:%c'';
            args = map (\<lambda>arg. if isElement arg then JArr [arg] else arg) args
        in console_call method (JStr formatStr # JStr (''color: '' @ color) # JStr [] # args) c)"

definition proxyRun ::
  "logger_module \<Rightarrow> logger \<Rightarrow> string \<Rightarrow> jsval list \<Rightarrow> console \<Rightarrow> console" where
  "proxyRun g self method args c =
     (if isActivated g self (Some method) then console_call method args c else c)"

text \<open>
  \<open>color(color)\<close> returns a function of the arguments; \<open>info\<close> and \<open>debug\<close> call \<open>log\<close>.
  (The methods \<open>color\<close> and \<open>debug\<close> carry the suffix \<open>_m\<close> here, their names being taken
  by a parameter and by the field of the options.)
\<close>

definition color_m :: "logger_module \<Rightarrow> logger \<Rightarrow> string \<Rightarrow> jsval list \<Rightarrow> console \<Rightarrow> console" where
  "color_m g this color args c = logProxyRun g this ''log'' color args c"

definition log :: "logger_module \<Rightarrow> logger \<Rightarrow> jsval list \<Rightarrow> console \<Rightarrow> console" where
  "log g this args c = logProxyRun g this ''log'' ''lightseagreen'' args c"

definition warn :: "logger_module \<Rightarrow> logger \<Rightarrow> jsval list \<Rightarrow> console \<Rightarrow> console" where
  "warn g this args c = logProxyRun g this ''warn'' ''goldenrod'' args c"

definition trace :: "logger_module \<Rightarrow> logger \<Rightarrow> jsval list \<Rightarrow> console \<Rightarrow> console" where
  "trace g this args c = logProxyRun g this ''trace'' ''lightseagreen'' args c"

definition info :: "logger_module \<Rightarrow> logger \<Rightarrow> jsval list \<Rightarrow> console \<Rightarrow> console" where
  "info g this args c = log g this args c"

definition debug_m :: "logger_module \<Rightarrow> logger \<Rightarrow> jsval list \<Rightarrow> console \<Rightarrow> console" where
  "debug_m g this args c = log g this args c"

definition table :: "logger_module \<Rightarrow> logger \<Rightarrow> jsval \<Rightarrow> console \<Rightarrow> console" where
  "table g this data c =
     (if isArray data \<and> isPlainObject data then log g this [data] c
      else proxyRun g this ''table'' [data] c)"

text \<open>
  A call \<open>logger[M](...args)\<close> of an output method. A method declared with one parameter
  (\<open>table(data)\<close>, \<open>group(label)\<close>, ...) receives the first argument, \<open>undefined\<close> when there
  is none; \<open>groupEnd\<close>, \<open>timeEnd\<close>, \<open>profileEnd\<close> and \<open>clear\<close> pass no argument on. The
  result is \<open>None\<close> when \<open>M\<close> is not the name of an output method.
\<close>

definition arg0 :: "jsval list \<Rightarrow> jsval" where
  "arg0 args = (case args of [] \<Rightarrow> JUndefined | a # rest \<Rightarrow> a)"

definition invoke ::
  "logger_module \<Rightarrow> logger \<Rightarrow> string \<Rightarrow> jsval list \<Rightarrow> console \<Rightarrow> (failure + console) option" where
  "invoke g this M args c =
     (if M = ''log'' then Some (Inr (log g this args c))
      else if M = ''warn'' then Some (Inr (warn g this args c))
      else if M = ''trace'' then Some (Inr (trace g this args c))
      else if M = ''error'' then Some (error args c)
      else if M = ''info'' then Some (Inr (info g this args c))
      else if M = ''debug'' then Some (Inr (debug_m g this args c))
      else if M = ''table'' then Some (Inr (table g this (arg0 args) c))
      else if M = ''dir'' then Some (Inr (proxyRun g this ''dir'' args c))
      else if M = ''dirxml'' then Some (Inr (proxyRun g this ''dirxml'' args c))
      else if M = ''group'' then Some (Inr (proxyRun g this ''group'' [arg0 args] c))
      else if M = ''groupCollapsed'' then
        Some (Inr (proxyRun g this ''groupCollapsed'' [arg0 args] c))
      else if M = ''groupEnd'' then Some (Inr (proxyRun g this ''groupEnd'' [] c))
      else if M = ''count'' then Some (Inr (proxyRun g this ''count'' [arg0 args] c))
      else if M = ''time'' then Some (Inr (proxyRun g this ''time'' [arg0 args] c))
      else if M = ''timeEnd'' then Some (Inr (proxyRun g this ''timeEnd'' [] c))
      else if M = ''timeStamp'' then Some (Inr (proxyRun g this ''timeStamp'' args c))
      else if M = ''profile'' then Some (Inr (proxyRun g this ''profile'' [arg0 args] c))
      else if M = ''profileEnd'' then Some (Inr (proxyRun g this ''profileEnd'' [] c))
      else if M = ''assert'' then
        Some (Inr (proxyRun g this ''assert'' (arg0 args # tl args) c))
      else if M = ''clear'' then Some (Inr (proxyRun g this ''clear'' [] c))
      else None)"

section \<open>Static configuration as published with the documentation (1.3.2)\<close>

text \<open>
  The source printed in the documentation has the same static fields and writes them
  through the class: \<open>Logger.rules = {...Logger.rules, ...rules, ...LOGGER_RULES}\<close> and
  \<open>Logger.options = {...Logger.options, ...options}\<close>.
\<close>

definition configRules_v132 :: "jsobj \<Rightarrow> logger_module \<Rightarrow> logger_module" where
  "configRules_v132 rules g = g \<lparr> Logger_rules := Logger_rules g ++ rules ++ LOGGER_RULES g \<rparr>"

definition config_v132 :: "options_patch \<Rightarrow> logger_module \<Rightarrow> logger_module" where
  "config_v132 opts g = g \<lparr> Logger_options := spread_options (Logger_options g) opts \<rparr>"

section \<open>Version 1.2.0: rules and default options in module variables\<close>

text \<open>
  \<open>IS_DEV\<close> is imported from \<open>./utils/env\<close>; \<open>_rules\<close> starts empty and \<open>_options\<close> with
  the documented defaults. The getters \<open>Logger.rules\<close> and \<open>Logger.options\<close> return the two
  variables.
\<close>

record logger_module_v12 =
  IS_DEV_v12 :: jsval
  LOGGER_RULES_v12 :: jsobj
  rules_v12 :: jsobj
  options_v12 :: options

definition load_module_v12 :: "jsval \<Rightarrow> jsobj \<Rightarrow> logger_module_v12" where
  "load_module_v12 is_dev stored_rules =
     \<lparr> IS_DEV_v12 = is_dev,
       LOGGER_RULES_v12 = stored_rules,
       rules_v12 = Map.empty,
       options_v12 = \<lparr> name = ''logger'', debug = True \<rparr> \<rparr>"

definition configRules_v12 :: "jsobj \<Rightarrow> logger_module_v12 \<Rightarrow> logger_module_v12" where
  "configRules_v12 rules g = g \<lparr> rules_v12 := rules_v12 g ++ rules ++ LOGGER_RULES_v12 g \<rparr>"

definition config_v12 :: "options_patch \<Rightarrow> logger_module_v12 \<Rightarrow> logger_module_v12" where
  "config_v12 opts g = g \<lparr> options_v12 := spread_options (options_v12 g) opts \<rparr>"

definition constructor_v12 :: "logger_module_v12 \<Rightarrow> string + options_patch \<Rightarrow> logger" where
  "constructor_v12 g opts =
     (case opts of
        Inl s \<Rightarrow> \<lparr> dollar_options = (options_v12 g) \<lparr> name := s \<rparr> \<rparr>
      | Inr p \<Rightarrow> \<lparr> dollar_options = spread_options (options_v12 g) p \<rparr>)"

section \<open>Version 1.1.0 (\<open>src/index.js\<close>): one static object of rules\<close>

text \<open>
  \<open>IS_DEV\<close> is imported from \<open>./utils/env\<close>. \<open>Logger.options\<close> is the rules object, read
  from the key \<open>LOGGER\<close> of \<open>localStorage\<close> when the module is loaded; \<open>config\<close> spreads
  the stored object over the new one (\<open>{...options, ...Logger.options}\<close>). The
  constructor starts from the constants \<open>name: 'logger'\<close>, \<open>debug: true\<close>.
\<close>

record logger_module_v11 =
  IS_DEV_v11 :: jsval
  Logger_options_v11 :: jsobj

definition config_v11 :: "jsobj \<Rightarrow> logger_module_v11 \<Rightarrow> logger_module_v11" where
  "config_v11 opts g = g \<lparr> Logger_options_v11 := opts ++ Logger_options_v11 g \<rparr>"

definition constructor_v11 :: "string + options_patch \<Rightarrow> logger" where
  "constructor_v11 opts =
     (let dollar_opts = \<lparr> name = ''logger'', debug = True \<rparr>
      in case opts of
           Inl s \<Rightarrow> \<lparr> dollar_options = dollar_opts \<lparr> name := s \<rparr> \<rparr>
         | Inr p \<Rightarrow> \<lparr> dollar_options = spread_options dollar_opts p \<rparr>)"

definition isActivated_v11 :: "logger_module_v11 \<Rightarrow> logger \<Rightarrow> string option \<Rightarrow> bool" where
  "isActivated_v11 g this method =
     (if \<not> truthy (IS_DEV_v11 g) then False
      else if \<not> dollar_debug this then False
      else
        let status = getprop (Logger_options_v11 g) (dollar_name this);
            status =
              (case method of
                 None \<Rightarrow> status
               | Some m \<Rightarrow>
                   if m \<noteq> [] then
                     (let subStatus = getprop (Logger_options_v11 g) (dollar_name this @ ''.'' @ m)
                      in if isBoolean subStatus then subStatus else status)
                   else status)
        in if status = JBool False then False else True)"

definition factory_v11 ::
  "logger_module_v11 \<Rightarrow> logger \<Rightarrow> string \<Rightarrow> string \<Rightarrow> jsval list \<Rightarrow> console \<Rightarrow> console" where
  "factory_v11 g self method color args c =
     (if isActivated_v11 g self (Some method) then
        let formatStr = ''%c['' @ dollar_name self @ '']:%c'';
            args = map (\<lambda>arg. if isElement arg then JArr [arg] else arg) args
        in console_call method (JStr formatStr # JStr (''color: '' @ color) # JStr [] # args) c
      else c)"

definition proxyRun_v11 ::
  "logger_module_v11 \<Rightarrow> logger \<Rightarrow> string \<Rightarrow> jsval list \<Rightarrow> console \<Rightarrow> console" where
  "proxyRun_v11 g self method args c =
     (if isActivated_v11 g self (Some method) then console_call method args c else c)"

definition log_v11 :: "logger_module_v11 \<Rightarrow> logger \<Rightarrow> jsval list \<Rightarrow> console \<Rightarrow> console" where
  "log_v11 g this args c = factory_v11 g this ''log'' ''lightseagreen'' args c"

definition warn_v11 :: "logger_module_v11 \<Rightarrow> logger \<Rightarrow> jsval list \<Rightarrow> console \<Rightarrow> console" where
  "warn_v11 g this args c = factory_v11 g this ''warn'' ''goldenrod'' args c"

definition trace_v11 :: "logger_module_v11 \<Rightarrow> logger \<Rightarrow> jsval list \<Rightarrow> console \<Rightarrow> console" where
  "trace_v11 g this args c = factory_v11 g this ''trace'' ''lightseagreen'' args c"

definition info_v11 :: "logger_module_v11 \<Rightarrow> logger \<Rightarrow> jsval list \<Rightarrow> console \<Rightarrow> console" where
  "info_v11 g this args c = log_v11 g this args c"

definition debug_v11 :: "logger_module_v11 \<Rightarrow> logger \<Rightarrow> jsval list \<Rightarrow> console \<Rightarrow> console" where
  "debug_v11 g this args c = log_v11 g this args c"

definition table_v11 :: "logger_module_v11 \<Rightarrow> logger \<Rightarrow> jsval \<Rightarrow> console \<Rightarrow> console" where
  "table_v11 g this data c =
     (if isArray data \<and> isPlainObject data then log_v11 g this [data] c
      else proxyRun_v11 g this ''table'' [data] c)"

text \<open>
  A call \<open>logger[M](...args)\<close> of an output method. Every method made by \<open>proxyRun\<close>
  passes all its arguments on.
\<close>

definition invoke_v11 ::
  "logger_module_v11 \<Rightarrow> logger \<Rightarrow> string \<Rightarrow> jsval list \<Rightarrow> console \<Rightarrow> (failure + console) option" where
  "invoke_v11 g this M args c =
     (if M = ''log'' then Some (Inr (log_v11 g this args c))
      else if M = ''warn'' then Some (Inr (warn_v11 g this args c))
      else if M = ''trace'' then Some (Inr (trace_v11 g this args c))
      else if M = ''error'' then Some (error args c)
      else if M = ''info'' then Some (Inr (info_v11 g this args c))
      else if M = ''debug'' then Some (Inr (debug_v11 g this args c))
      else if M = ''table'' then Some (Inr (table_v11 g this (arg0 args) c))
      else if M \<in> set [''dir'', ''dirxml'', ''group'', ''groupCollapsed'', ''groupEnd'', ''count'',
                        ''time'', ''timeEnd'', ''timeStamp'', ''profile'', ''profileEnd'', ''assert'',
                        ''clear''] then
        Some (Inr (proxyRun_v11 g this M args c))
      else None)"

section \<open>Example states\<close>

definition rules_log_off :: jsobj where
  "rules_log_off = [''request'' \<mapsto> JBool True, ''request.log'' \<mapsto> JBool False]"

definition rules_log_on :: jsobj where
  "rules_log_on = [''request'' \<mapsto> JBool False, ''request.log'' \<mapsto> JBool True]"

definition rules_info_off :: jsobj where
  "rules_info_off = [''request'' \<mapsto> JBool True, ''request.info'' \<mapsto> JBool False]"

definition request_logger :: logger where
  "request_logger = \<lparr> dollar_options = \<lparr> name = ''request'', debug = True \<rparr> \<rparr>"

section \<open>\<open>isActivated\<close> as a call on the state\<close>

text \<open>
  What a call can read and could write: the state of the module, the instance the method
  is called on, and what the host console has received. The expressions of the body that
  read the state are the constant \<open>IS_DEV\<close>, the property reads \<open>ctr.rules[key]\<close> and the
  getters \<open>this.$name\<close> and \<open>this.$debug\<close>; the body of \<open>isActivated\<close> is translated
  statement by statement, so an assignment to a field would show as an update of the
  state.
\<close>

record world =
  w_module :: logger_module
  w_this :: logger
  w_console :: console

definition read_IS_DEV :: "(world, jsval) state" where
  "read_IS_DEV = do { w \<leftarrow> State_Monad.get; State_Monad.return (IS_DEV (w_module w)) }"

definition read_rules :: "string \<Rightarrow> (world, jsval) state" where
  "read_rules key =
     do { w \<leftarrow> State_Monad.get; State_Monad.return (getprop (Logger_rules (w_module w)) key) }"

definition read_name :: "(world, string) state" where
  "read_name = do { w \<leftarrow> State_Monad.get; State_Monad.return (dollar_name (w_this w)) }"

definition read_debug :: "(world, bool) state" where
  "read_debug = do { w \<leftarrow> State_Monad.get; State_Monad.return (dollar_debug (w_this w)) }"

definition isActivated_call :: "string option \<Rightarrow> (world, bool) state" where
  "isActivated_call method =
     do {
       is_dev \<leftarrow> read_IS_DEV;
       if \<not> truthy is_dev then State_Monad.return False
       else do {
         name \<leftarrow> read_name;
         status \<leftarrow> read_rules name;
         status \<leftarrow>
           (case method of
              None \<Rightarrow> State_Monad.return status
            | Some m \<Rightarrow>
                if m \<noteq> [] then do {
                  name \<leftarrow> read_name;
                  subStatus \<leftarrow> read_rules (name @ ''.'' @ m);
                  State_Monad.return (if isBoolean subStatus then subStatus else status)
                }
                else State_Monad.return status);
         if status = JBool False then State_Monad.return False
         else do {
           dbg \<leftarrow> read_debug;
           if \<not> dbg then State_Monad.return False else State_Monad.return True
         }
       }
     }"

text \<open>The same for \<open>src/index.js\<close>, where the debug flag is read before the rules.\<close>

record world_v11 =
  w_module_v11 :: logger_module_v11
  w_this_v11 :: logger
  w_console_v11 :: console

definition read_IS_DEV_v11 :: "(world_v11, jsval) state" where
  "read_IS_DEV_v11 =
     do { w \<leftarrow> State_Monad.get; State_Monad.return (IS_DEV_v11 (w_module_v11 w)) }"

definition read_options_v11 :: "string \<Rightarrow> (world_v11, jsval) state" where
  "read_options_v11 key =
     do { w \<leftarrow> State_Monad.get;
          State_Monad.return (getprop (Logger_options_v11 (w_module_v11 w)) key) }"

definition read_name_v11 :: "(world_v11, string) state" where
  "read_name_v11 = do { w \<leftarrow> State_Monad.get; State_Monad.return (dollar_name (w_this_v11 w)) }"

definition read_debug_v11 :: "(world_v11, bool) state" where
  "read_debug_v11 =
     do { w \<leftarrow> State_Monad.get; State_Monad.return (dollar_debug (w_this_v11 w)) }"

definition isActivated_call_v11 :: "string option \<Rightarrow> (world_v11, bool) state" where
  "isActivated_call_v11 method =
     do {
       is_dev \<leftarrow> read_IS_DEV_v11;
       if \<not> truthy is_dev then State_Monad.return False
       else do {
         dbg \<leftarrow> read_debug_v11;
         if \<not> dbg then State_Monad.return False
         else do {
           name \<leftarrow> read_name_v11;
           status \<leftarrow> read_options_v11 name;
           status \<leftarrow>
             (case method of
                None \<Rightarrow> State_Monad.return status
              | Some m \<Rightarrow>
                  if m \<noteq> [] then do {
                    name \<leftarrow> read_name_v11;
                    subStatus \<leftarrow> read_options_v11 (name @ ''.'' @ m);
                    State_Monad.return (if isBoolean subStatus then subStatus else status)
                  }
                  else State_Monad.return status);
           if status = JBool False then State_Monad.return False
           else State_Monad.return True
         }
       }
     }"

text \<open>
  Two calls with any change of the state between them (none, \<open>disable()\<close>, a call of
  \<open>configRules\<close>, ...), as a caller that compares the two answers would make them.
\<close>

definition isActivated_around ::
  "(world \<Rightarrow> world) \<Rightarrow> string option \<Rightarrow> (world, bool \<times> bool) state" where
  "isActivated_around change method =
     do { a \<leftarrow> isActivated_call method;
          State_Monad.update change;
          b \<leftarrow> isActivated_call method;
          State_Monad.return (a, b) }"

definition isActivated_around_v11 ::
  "(world_v11 \<Rightarrow> world_v11) \<Rightarrow> string option \<Rightarrow> (world_v11, bool \<times> bool) state" where
  "isActivated_around_v11 change method =
     do { a \<leftarrow> isActivated_call_v11 method;
          State_Monad.update change;
          b \<leftarrow> isActivated_call_v11 method;
          State_Monad.return (a, b) }"

definition example_world :: world where
  "example_world =
     \<lparr> w_module = load_module (JBool True) rules_log_on,
       w_this = request_logger,
       w_console = [] \<rparr>"

definition example_world_b :: world where
  "example_world_b =
     \<lparr> w_module = config \<lparr> name_opt = Some ''other'', debug_opt = Some False \<rparr>
                    (configRules rules_log_off (load_module (JBool True) rules_log_on)),
       w_this = enable (disable request_logger),
       w_console = [(''log'', [JStr ''url''])] \<rparr>"

definition example_world_v11 :: world_v11 where
  "example_world_v11 =
     \<lparr> w_module_v11 = \<lparr> IS_DEV_v11 = JBool True, Logger_options_v11 = rules_log_on \<rparr>,
       w_this_v11 = request_logger,
       w_console_v11 = [] \<rparr>"

definition example_world_v11_b :: world_v11 where
  "example_world_v11_b =
     \<lparr> w_module_v11 = \<lparr> IS_DEV_v11 = JBool True, Logger_options_v11 = rules_log_on \<rparr>,
       w_this_v11 = enable (disable request_logger),
       w_console_v11 = [(''log'', [JStr ''url''])] \<rparr>"

section \<open>Auxiliary facts\<close>

lemma not_array_and_object: "\<not> (isArray d \<and> isPlainObject d)"
  by (cases d) simp_all

lemma those_map_Some: "those (map Some xs) = Some xs"
  by (induction xs) simp_all

lemma those_None_iff: "those xs = None \<longleftrightarrow> None \<in> set xs"
  by (induction xs) (auto split: option.splits)

lemma error_throws_Error:
  "map toString args = map Some strs \<Longrightarrow> error args c = Inl (Error (join '' '' strs))"
  by (simp add: error_def those_map_Some)

lemma error_TypeError_iff:
  "error args c = Inl TypeError \<longleftrightarrow> (\<exists>a \<in> set args. toString a = None)"
proof -
  have "error args c = Inl TypeError \<longleftrightarrow> those (map toString args) = None"
    by (simp add: error_def split: option.splits)
  also have "\<dots> \<longleftrightarrow> None \<in> toString ` set args"
    by (simp add: those_None_iff)
  also have "\<dots> \<longleftrightarrow> (\<exists>a \<in> set args. toString a = None)"
    by force
  finally show ?thesis .
qed

lemma error_never_returns: "\<exists>f. error args c = Inl f"
  by (simp add: error_def split: option.splits)

lemma sub_rule_false:
  "Logger_rules g (dollar_name this @ ''.'' @ M) = Some (JBool False) \<Longrightarrow> M \<noteq> [] \<Longrightarrow>
   \<not> isActivated g this (Some M)"
  by (simp add: isActivated_def getprop_def)

lemma sub_rule_false_v11:
  "Logger_options_v11 g (dollar_name this @ ''.'' @ M) = Some (JBool False) \<Longrightarrow> M \<noteq> [] \<Longrightarrow>
   \<not> isActivated_v11 g this (Some M)"
  by (simp add: isActivated_v11_def getprop_def)

text \<open>
  An output method that asks \<open>isActivated\<close> under its own name forwards nothing when the
  answer is no. \<open>info\<close> and \<open>debug\<close> ask under the name \<open>log\<close>.
\<close>

lemma inactive_forwards_nothing:
  "\<not> isActivated g this (Some M) \<Longrightarrow> M \<noteq> ''info'' \<Longrightarrow> M \<noteq> ''debug'' \<Longrightarrow>
   invoke g this M args c = Some (Inr c') \<Longrightarrow> c' = c"
  by (auto simp add: invoke_def log_def warn_def trace_def logProxyRun_def proxyRun_def
      table_def error_def not_array_and_object split: if_splits option.splits)

lemma inactive_forwards_nothing_v11:
  "\<not> isActivated_v11 g this (Some M) \<Longrightarrow> M \<noteq> ''info'' \<Longrightarrow> M \<noteq> ''debug'' \<Longrightarrow>
   invoke_v11 g this M args c = Some (Inr c') \<Longrightarrow> c' = c"
  by (auto simp add: invoke_v11_def log_v11_def warn_v11_def trace_v11_def factory_v11_def
      proxyRun_v11_def table_v11_def error_def not_array_and_object
      split: if_splits option.splits)

lemma isActivated_frame:
  assumes "IS_DEV g = IS_DEV g'" and "Logger_rules g = Logger_rules g'"
    and "dollar_debug this = dollar_debug this'" and "dollar_name this = dollar_name this'"
  shows "isActivated g this method = isActivated g' this' method"
  by (simp only: isActivated_def assms)

lemma isActivated_v11_frame:
  assumes "IS_DEV_v11 h = IS_DEV_v11 h'" and "Logger_options_v11 h = Logger_options_v11 h'"
    and "dollar_debug this = dollar_debug this'" and "dollar_name this = dollar_name this'"
  shows "isActivated_v11 h this method = isActivated_v11 h' this' method"
  by (simp only: isActivated_v11_def assms)

text \<open>A call of \<open>isActivated\<close> returns the value of the function and the state it found.\<close>

lemma run_isActivated_call:
  "run_state (isActivated_call method) w = (isActivated (w_module w) (w_this w) method, w)"
  by (simp add: isActivated_call_def isActivated_def read_IS_DEV_def read_rules_def read_name_def
      read_debug_def Let_def split: option.splits)

lemma run_isActivated_call_v11:
  "run_state (isActivated_call_v11 method) w =
     (isActivated_v11 (w_module_v11 w) (w_this_v11 w) method, w)"
  by (simp add: isActivated_call_v11_def isActivated_v11_def read_IS_DEV_v11_def
      read_options_v11_def read_name_v11_def read_debug_v11_def Let_def split: option.splits)

text \<open>\<open>info\<close> and \<open>debug\<close> do what \<open>log\<close> does.\<close>

lemma info_is_log: "invoke g this ''info'' args c = invoke g this ''log'' args c"
  by (simp add: invoke_def info_def)

lemma debug_is_log: "invoke g this ''debug'' args c = invoke g this ''log'' args c"
  by (simp add: invoke_def debug_m_def)

lemma info_is_log_v11: "invoke_v11 g this ''info'' args c = invoke_v11 g this ''log'' args c"
  by (simp add: invoke_v11_def info_v11_def)

lemma debug_is_log_v11: "invoke_v11 g this ''debug'' args c = invoke_v11 g this ''log'' args c"
  by (simp add: invoke_v11_def debug_v11_def)

lemma log_inactive:
  "\<not> isActivated g this (Some ''log'') \<Longrightarrow> invoke g this ''log'' args c = Some (Inr c)"
  by (simp add: invoke_def log_def logProxyRun_def)

lemma log_inactive_v11:
  "\<not> isActivated_v11 g this (Some ''log'') \<Longrightarrow>
   invoke_v11 g this ''log'' args c = Some (Inr c)"
  by (simp add: invoke_v11_def log_v11_def factory_v11_def)

text \<open>
  \<open>configRules\<close> and \<open>config\<close> write the properties of the global object and leave the
  static fields of the class as they are.
\<close>

lemma Logger_rules_configRules: "Logger_rules (configRules r g) = Logger_rules g"
  by (simp add: configRules_def)

lemma Logger_rules_fold_configRules: "Logger_rules (fold configRules rs g) = Logger_rules g"
  by (induction rs arbitrary: g) (simp_all add: Logger_rules_configRules)

lemma Logger_options_config: "Logger_options (config p g) = Logger_options g"
  by (simp add: config_def)

lemma configRules_twice_Logger_rules:
  "getprop (Logger_rules (configRules [''a'' \<mapsto> JBool False]
     (configRules [''a'' \<mapsto> JBool True] (load_module (JBool True) Map.empty)))) ''a'' = JUndefined"
  by (simp add: Logger_rules_configRules load_module_def getprop_def)

text \<open>The constructor reads the static options; the other two revisions of \<open>config\<close> set them.\<close>

lemma constructor_reads_Logger_options:
  "dollar_debug (constructor g (Inl s)) = debug (Logger_options g)"
  by (simp add: constructor_def dollar_debug_def)

lemma config_v12_sets_default_debug:
  "debug_opt p = Some d \<Longrightarrow> dollar_debug (constructor_v12 (config_v12 p g) (Inl s)) = d"
  by (simp add: constructor_v12_def config_v12_def dollar_debug_def spread_options_def)

lemma config_v132_sets_default_debug:
  "debug_opt p = Some d \<Longrightarrow> dollar_debug (constructor (config_v132 p g) (Inl s)) = d"
  by (simp add: constructor_def config_v132_def dollar_debug_def spread_options_def)

section \<open>The claims\<close>

subsection \<open>Activation\<close>

text \<open>
  Claim C1. When the development-mode flag is false (here: any falsy value of \<open>IS_DEV\<close>),
  \<open>isActivated(method)\<close> returns false for every instance, every method name (or none)
  and every rules object, whatever the debug flag of the instance; in the revision since
  1.3.0 and in \<open>src/index.js\<close>.
\<close>

theorem dev_mode_off_never_activated:
  "(\<not> truthy (IS_DEV g) \<longrightarrow> isActivated g this method = False) \<and>
   (\<not> truthy (IS_DEV_v11 h) \<longrightarrow> isActivated_v11 h this method = False)"
  by (simp add: isActivated_def isActivated_v11_def)

theorem dev_mode_off_never_activated_witness:
  "\<not> truthy (IS_DEV (load_module (JBool False) rules_log_on)) \<and>
   isActivated (load_module (JBool False) rules_log_on) request_logger (Some ''log'') = False \<and>
   \<not> truthy (IS_DEV_v11 \<lparr> IS_DEV_v11 = JBool False, Logger_options_v11 = rules_log_on \<rparr>) \<and>
   isActivated_v11 \<lparr> IS_DEV_v11 = JBool False, Logger_options_v11 = rules_log_on \<rparr>
     request_logger (Some ''log'') = False"
  using dev_mode_off_never_activated [of "load_module (JBool False) rules_log_on" request_logger
      "Some ''log''" "\<lparr> IS_DEV_v11 = JBool False, Logger_options_v11 = rules_log_on \<rparr>"]
  by (simp add: load_module_def)

text \<open>
  Claim C2, as amended. For every namespace \<open>N\<close> and method name \<open>M\<close> (a non-empty string, as
  every method name is): if the rules hold the boolean entry \<open>"N.M" = false\<close>, then for an
  instance named \<open>N\<close>, \<open>isActivated(M)\<close> returns false, whatever the entry for \<open>"N"\<close>, the
  debug flag and the development mode; and the output method \<open>M\<close> forwards nothing to the
  console when it is one of those that ask \<open>isActivated\<close> under their own name, that is
  every output method but \<open>info\<close> and \<open>debug\<close>. These two are aliases of \<open>log\<close>: a call
  of either does exactly what the same call of \<open>log\<close> does, so they are gated by
  \<open>"N.log"\<close>, and with \<open>"N.log" = false\<close> all three forward nothing.
\<close>

theorem sub_rule_false_gates_own_method:
  assumes "M \<noteq> []" and "dollar_name this = N"
  shows "(Logger_rules g (N @ ''.'' @ M) = Some (JBool False) \<longrightarrow>
            \<not> isActivated g this (Some M) \<and>
            (M \<noteq> ''info'' \<and> M \<noteq> ''debug'' \<and> invoke g this M args c = Some (Inr c') \<longrightarrow>
               c' = c)) \<and>
         (Logger_options_v11 h (N @ ''.'' @ M) = Some (JBool False) \<longrightarrow>
            \<not> isActivated_v11 h this (Some M) \<and>
            (M \<noteq> ''info'' \<and> M \<noteq> ''debug'' \<and> invoke_v11 h this M args c = Some (Inr c'') \<longrightarrow>
               c'' = c)) \<and>
         invoke g this ''info'' args c = invoke g this ''log'' args c \<and>
         invoke g this ''debug'' args c = invoke g this ''log'' args c \<and>
         invoke_v11 h this ''info'' args c = invoke_v11 h this ''log'' args c \<and>
         invoke_v11 h this ''debug'' args c = invoke_v11 h this ''log'' args c \<and>
         (Logger_rules g (N @ ''.log'') = Some (JBool False) \<longrightarrow>
            invoke g this ''log'' args c = Some (Inr c) \<and>
            invoke g this ''info'' args c = Some (Inr c) \<and>
            invoke g this ''debug'' args c = Some (Inr c)) \<and>
         (Logger_options_v11 h (N @ ''.log'') = Some (JBool False) \<longrightarrow>
            invoke_v11 h this ''log'' args c = Some (Inr c) \<and>
            invoke_v11 h this ''info'' args c = Some (Inr c) \<and>
            invoke_v11 h this ''debug'' args c = Some (Inr c))"
proof -
  have own: "Logger_rules g (N @ ''.'' @ M) = Some (JBool False) \<longrightarrow>
      \<not> isActivated g this (Some M) \<and>
      (M \<noteq> ''info'' \<and> M \<noteq> ''debug'' \<and> invoke g this M args c = Some (Inr c') \<longrightarrow> c' = c)"
    using assms sub_rule_false [of g this M] inactive_forwards_nothing [of g this M args c c']
    by blast
  have own11: "Logger_options_v11 h (N @ ''.'' @ M) = Some (JBool False) \<longrightarrow>
      \<not> isActivated_v11 h this (Some M) \<and>
      (M \<noteq> ''info'' \<and> M \<noteq> ''debug'' \<and> invoke_v11 h this M args c = Some (Inr c'') \<longrightarrow>
         c'' = c)"
    using assms sub_rule_false_v11 [of h this M]
      inactive_forwards_nothing_v11 [of h this M args c c'']
    by blast
  have gate: "invoke g this ''log'' args c = Some (Inr c)"
    if "Logger_rules g (N @ ''.log'') = Some (JBool False)"
    using that assms(2) sub_rule_false [of g this "''log''"] log_inactive [of g this args c]
    by simp
  have gate11: "invoke_v11 h this ''log'' args c = Some (Inr c)"
    if "Logger_options_v11 h (N @ ''.log'') = Some (JBool False)"
    using that assms(2) sub_rule_false_v11 [of h this "''log''"]
      log_inactive_v11 [of h this args c]
    by simp
  show ?thesis
    using own own11 gate gate11 info_is_log [of g this args c] debug_is_log [of g this args c]
      info_is_log_v11 [of h this args c] debug_is_log_v11 [of h this args c]
    by simp
qed

theorem sub_rule_false_gates_own_method_witness:
  "''log'' \<noteq> [] \<and> dollar_name request_logger = ''request'' \<and>
   Logger_rules (load_module (JBool True) rules_log_off) (''request'' @ ''.'' @ ''log'') =
     Some (JBool False) \<and>
   Logger_rules (load_module (JBool True) rules_log_off) ''request'' = Some (JBool True) \<and>
   \<not> isActivated (load_module (JBool True) rules_log_off) request_logger (Some ''log'') \<and>
   invoke (load_module (JBool True) rules_log_off) request_logger ''log'' [JStr ''url''] [] =
     Some (Inr []) \<and>
   invoke (load_module (JBool True) rules_log_off) request_logger ''info'' [JStr ''url''] [] =
     Some (Inr []) \<and>
   invoke (load_module (JBool True) rules_log_off) request_logger ''debug'' [JStr ''url''] [] =
     Some (Inr []) \<and>
   Logger_options_v11 \<lparr> IS_DEV_v11 = JBool True, Logger_options_v11 = rules_log_off \<rparr> (''request'' @ ''.'' @ ''log'') = Some (JBool False) \<and>
   \<not> isActivated_v11 \<lparr> IS_DEV_v11 = JBool True, Logger_options_v11 = rules_log_off \<rparr> request_logger (Some ''log'') \<and>
   invoke_v11 \<lparr> IS_DEV_v11 = JBool True, Logger_options_v11 = rules_log_off \<rparr> request_logger ''log'' [JStr ''url''] [] = Some (Inr []) \<and>
   invoke_v11 \<lparr> IS_DEV_v11 = JBool True, Logger_options_v11 = rules_log_off \<rparr> request_logger ''info'' [JStr ''url''] [] = Some (Inr []) \<and>
   invoke_v11 \<lparr> IS_DEV_v11 = JBool True, Logger_options_v11 = rules_log_off \<rparr> request_logger ''debug'' [JStr ''url''] [] = Some (Inr [])"
proof -
  have n: "dollar_name request_logger = ''request''"
    by (simp add: dollar_name_def request_logger_def)
  have r: "Logger_rules (load_module (JBool True) rules_log_off) (''request'' @ ''.'' @ ''log'') =
      Some (JBool False)"
    by (simp add: load_module_def rules_log_off_def)
  have r': "Logger_rules (load_module (JBool True) rules_log_off) ''request'' = Some (JBool True)"
    by (simp add: load_module_def rules_log_off_def)
  have r11: "Logger_options_v11 \<lparr> IS_DEV_v11 = JBool True, Logger_options_v11 = rules_log_off \<rparr> (''request'' @ ''.'' @ ''log'') = Some (JBool False)"
    by (simp add: rules_log_off_def)
  show ?thesis
    using sub_rule_false_gates_own_method [of "''log''" request_logger "''request''"
        "load_module (JBool True) rules_log_off" "[JStr ''url'']" "[]" "[]" "\<lparr> IS_DEV_v11 = JBool True, Logger_options_v11 = rules_log_off \<rparr>" "[]"]
      n r r' r11
    by simp
qed

text \<open>
  The claim as first stated fails for \<open>M = info\<close>: with \<open>"request.info" = false\<close> and
  \<open>"request" = true\<close>, \<open>isActivated('info')\<close> is false, yet \<open>info('url')\<close> reaches
  \<open>console.log\<close>.
\<close>

theorem info_ignores_its_sub_rule:
  "Logger_rules (load_module (JBool True) rules_info_off) ''request.info'' = Some (JBool False) \<and>
   dollar_name request_logger = ''request'' \<and> dollar_debug request_logger \<and>
   \<not> isActivated (load_module (JBool True) rules_info_off) request_logger (Some ''info'') \<and>
   invoke (load_module (JBool True) rules_info_off) request_logger ''info'' [JStr ''url''] [] =
     Some (Inr [(''log'', [JStr ''%c[request]:%c'', JStr ''color: lightseagreen'', JStr [],
                          JStr ''url''])]) \<and>
   \<not> isActivated_v11 \<lparr> IS_DEV_v11 = JBool True, Logger_options_v11 = rules_info_off \<rparr> request_logger (Some ''info'') \<and>
   invoke_v11 \<lparr> IS_DEV_v11 = JBool True, Logger_options_v11 = rules_info_off \<rparr> request_logger ''info'' [JStr ''url''] [] =
     Some (Inr [(''log'', [JStr ''%c[request]:%c'', JStr ''color: lightseagreen'', JStr [],
                          JStr ''url''])])"
  by (simp add: load_module_def rules_info_off_def request_logger_def dollar_name_def
      dollar_debug_def isActivated_def isActivated_v11_def getprop_def invoke_def invoke_v11_def
      info_def info_v11_def log_def log_v11_def logProxyRun_def factory_v11_def console_call_def)

text \<open>
  Claim C3. For every namespace \<open>N\<close> and method name \<open>M\<close> (a non-empty string): if the rules
  hold the boolean entry \<open>"N.M" = true\<close>, then for an instance named \<open>N\<close> with
  \<open>debug = true\<close>, in development mode, \<open>isActivated(M)\<close> returns true, whatever the entry
  for \<open>"N"\<close>. (For the empty string \<open>if (method)\<close> skips the lookup of \<open>"N.M"\<close>, as it does
  for a call without argument.)
\<close>

theorem sub_rule_true_overrides_namespace:
  "(truthy (IS_DEV g) \<and> Logger_rules g (N @ ''.'' @ M) = Some (JBool True) \<and> M \<noteq> [] \<and>
      dollar_name this = N \<and> dollar_debug this
    \<longrightarrow> isActivated g this (Some M)) \<and>
   (truthy (IS_DEV_v11 h) \<and> Logger_options_v11 h (N @ ''.'' @ M) = Some (JBool True) \<and> M \<noteq> [] \<and>
      dollar_name this = N \<and> dollar_debug this
    \<longrightarrow> isActivated_v11 h this (Some M))"
  by (simp add: isActivated_def isActivated_v11_def getprop_def)

theorem sub_rule_true_overrides_namespace_witness:
  "truthy (IS_DEV (load_module (JBool True) rules_log_on)) \<and>
   Logger_rules (load_module (JBool True) rules_log_on) (''request'' @ ''.'' @ ''log'') =
     Some (JBool True) \<and>
   Logger_rules (load_module (JBool True) rules_log_on) ''request'' = Some (JBool False) \<and>
   ''log'' \<noteq> [] \<and> dollar_name request_logger = ''request'' \<and> dollar_debug request_logger \<and>
   isActivated (load_module (JBool True) rules_log_on) request_logger (Some ''log'') \<and>
   isActivated_v11 \<lparr> IS_DEV_v11 = JBool True, Logger_options_v11 = rules_log_on \<rparr> request_logger (Some ''log'')"
  using sub_rule_true_overrides_namespace [of "load_module (JBool True) rules_log_on" "''request''"
      "''log''" request_logger "\<lparr> IS_DEV_v11 = JBool True, Logger_options_v11 = rules_log_on \<rparr>"]
  by (simp add: load_module_def rules_log_on_def request_logger_def dollar_name_def
      dollar_debug_def)

text \<open>
  Claim C8. A call of \<open>isActivated\<close> leaves the state as it found it: the module (flag,
  rules, default options, the properties of the global object), the instance and the
  console. Its answer is a function of the development-mode flag, the rules object, the
  debug flag and the name of the instance, and the method name: in two states that agree
  on these the answers are equal, whatever else differs. Nothing is cached or latched:
  of two calls with any change of the state between them, the first answers for the
  state before the change and the second for the state after it, so two calls in a row
  give the same answer.
\<close>

theorem isActivated_depends_only_on_inputs:
  "snd (run_state (isActivated_call method) w) = w \<and>
   fst (run_state (isActivated_call method) w) = isActivated (w_module w) (w_this w) method \<and>
   run_state (isActivated_around change method) w =
     ((isActivated (w_module w) (w_this w) method,
       isActivated (w_module (change w)) (w_this (change w)) method), change w) \<and>
   (IS_DEV (w_module w) = IS_DEV (w_module w2) \<and>
    Logger_rules (w_module w) = Logger_rules (w_module w2) \<and>
    dollar_debug (w_this w) = dollar_debug (w_this w2) \<and>
    dollar_name (w_this w) = dollar_name (w_this w2)
    \<longrightarrow> fst (run_state (isActivated_call method) w) =
         fst (run_state (isActivated_call method) w2)) \<and>
   snd (run_state (isActivated_call_v11 method) v) = v \<and>
   fst (run_state (isActivated_call_v11 method) v) =
     isActivated_v11 (w_module_v11 v) (w_this_v11 v) method \<and>
   run_state (isActivated_around_v11 change_v11 method) v =
     ((isActivated_v11 (w_module_v11 v) (w_this_v11 v) method,
       isActivated_v11 (w_module_v11 (change_v11 v)) (w_this_v11 (change_v11 v)) method),
      change_v11 v) \<and>
   (IS_DEV_v11 (w_module_v11 v) = IS_DEV_v11 (w_module_v11 v2) \<and>
    Logger_options_v11 (w_module_v11 v) = Logger_options_v11 (w_module_v11 v2) \<and>
    dollar_debug (w_this_v11 v) = dollar_debug (w_this_v11 v2) \<and>
    dollar_name (w_this_v11 v) = dollar_name (w_this_v11 v2)
    \<longrightarrow> fst (run_state (isActivated_call_v11 method) v) =
         fst (run_state (isActivated_call_v11 method) v2))"
proof -
  have "isActivated (w_module w) (w_this w) method = isActivated (w_module w2) (w_this w2) method"
    if "IS_DEV (w_module w) = IS_DEV (w_module w2)"
      and "Logger_rules (w_module w) = Logger_rules (w_module w2)"
      and "dollar_debug (w_this w) = dollar_debug (w_this w2)"
      and "dollar_name (w_this w) = dollar_name (w_this w2)"
    using that by (rule isActivated_frame)
  moreover have "isActivated_v11 (w_module_v11 v) (w_this_v11 v) method =
      isActivated_v11 (w_module_v11 v2) (w_this_v11 v2) method"
    if "IS_DEV_v11 (w_module_v11 v) = IS_DEV_v11 (w_module_v11 v2)"
      and "Logger_options_v11 (w_module_v11 v) = Logger_options_v11 (w_module_v11 v2)"
      and "dollar_debug (w_this_v11 v) = dollar_debug (w_this_v11 v2)"
      and "dollar_name (w_this_v11 v) = dollar_name (w_this_v11 v2)"
    using that by (rule isActivated_v11_frame)
  ultimately show ?thesis
    by (simp add: run_isActivated_call run_isActivated_call_v11 isActivated_around_def
        isActivated_around_v11_def State_Monad.update_def)
qed

theorem isActivated_depends_only_on_inputs_witness:
  "example_world \<noteq> example_world_b \<and>
   IS_DEV (w_module example_world) = IS_DEV (w_module example_world_b) \<and>
   Logger_rules (w_module example_world) = Logger_rules (w_module example_world_b) \<and>
   dollar_debug (w_this example_world) = dollar_debug (w_this example_world_b) \<and>
   dollar_name (w_this example_world) = dollar_name (w_this example_world_b) \<and>
   fst (run_state (isActivated_call (Some ''log'')) example_world) =
     fst (run_state (isActivated_call (Some ''log'')) example_world_b) \<and>
   snd (run_state (isActivated_call (Some ''log'')) example_world_b) = example_world_b \<and>
   example_world_v11 \<noteq> example_world_v11_b \<and>
   fst (run_state (isActivated_call_v11 (Some ''log'')) example_world_v11) =
     fst (run_state (isActivated_call_v11 (Some ''log'')) example_world_v11_b) \<and>
   snd (run_state (isActivated_call_v11 (Some ''log'')) example_world_v11_b) =
     example_world_v11_b"
proof -
  have d: "example_world \<noteq> example_world_b" "example_world_v11 \<noteq> example_world_v11_b"
    by (simp_all add: example_world_def example_world_b_def example_world_v11_def
        example_world_v11_b_def)
  have p: "IS_DEV (w_module example_world) = IS_DEV (w_module example_world_b)"
    "Logger_rules (w_module example_world) = Logger_rules (w_module example_world_b)"
    "dollar_debug (w_this example_world) = dollar_debug (w_this example_world_b)"
    "dollar_name (w_this example_world) = dollar_name (w_this example_world_b)"
    by (simp_all add: example_world_def example_world_b_def config_def configRules_def
        load_module_def enable_def disable_def dollar_name_def dollar_debug_def
        request_logger_def)
  have q: "IS_DEV_v11 (w_module_v11 example_world_v11) =
       IS_DEV_v11 (w_module_v11 example_world_v11_b)"
    "Logger_options_v11 (w_module_v11 example_world_v11) =
       Logger_options_v11 (w_module_v11 example_world_v11_b)"
    "dollar_debug (w_this_v11 example_world_v11) = dollar_debug (w_this_v11 example_world_v11_b)"
    "dollar_name (w_this_v11 example_world_v11) = dollar_name (w_this_v11 example_world_v11_b)"
    by (simp_all add: example_world_v11_def example_world_v11_b_def
        enable_def disable_def dollar_name_def dollar_debug_def request_logger_def)
  show ?thesis
    using d p q
      isActivated_depends_only_on_inputs [of "Some ''log''" example_world id example_world_b
        example_world_v11 id example_world_v11_b]
      isActivated_depends_only_on_inputs [of "Some ''log''" example_world_b id example_world
        example_world_v11_b id example_world_v11]
    by blast
qed

subsection \<open>The method \<open>error\<close>\<close>

text \<open>
  Claim C4, as amended. For every argument list \<open>error(...args)\<close> throws and never returns,
  whatever the development mode, the rules and the debug flag of the instance. When every
  argument has a textual conversion (\<open>strs\<close> are the results of \<open>toString\<close> on the
  arguments, in order), what is thrown is an \<open>Error\<close> whose message is these strings joined
  with a single space; so \<open>error("a", "b")\<close> throws an \<open>Error\<close> with the message \<open>"a b"\<close>.
\<close>

theorem error_always_throws:
  "(\<exists>f. invoke g this ''error'' args c = Some (Inl f)) \<and>
   (\<exists>f. invoke_v11 h this ''error'' args c = Some (Inl f)) \<and>
   (map toString args = map Some strs \<longrightarrow>
      invoke g this ''error'' args c = Some (Inl (Error (join '' '' strs))) \<and>
      invoke_v11 h this ''error'' args c = Some (Inl (Error (join '' '' strs)))) \<and>
   invoke g this ''error'' [JStr ''a'', JStr ''b''] c = Some (Inl (Error ''a b'')) \<and>
   invoke_v11 h this ''error'' [JStr ''a'', JStr ''b''] c = Some (Inl (Error ''a b''))"
proof -
  have "invoke g this ''error'' xs c = Some (error xs c)" for xs
    by (simp add: invoke_def)
  moreover have "invoke_v11 h this ''error'' xs c = Some (error xs c)" for xs
    by (simp add: invoke_v11_def)
  moreover have "error [JStr ''a'', JStr ''b''] c = Inl (Error ''a b'')"
    by (simp add: error_def)
  ultimately show ?thesis
    using error_never_returns [of args c] error_throws_Error [of args strs c] by simp
qed

theorem error_always_throws_witness:
  "map toString [JStr ''request'', JNum 404, JBool False] =
     map Some [''request'', ''404'', ''false''] \<and>
   invoke (load_module (JBool False) Map.empty) (disable request_logger) ''error''
     [JStr ''request'', JNum 404, JBool False] [] = Some (Inl (Error ''request 404 false'')) \<and>
   invoke_v11 \<lparr> IS_DEV_v11 = JBool False, Logger_options_v11 = Map.empty \<rparr>
     (disable request_logger) ''error''
     [JStr ''request'', JNum 404, JBool False] [] = Some (Inl (Error ''request 404 false''))"
proof -
  have s: "map toString [JStr ''request'', JNum 404, JBool False] =
      map Some [''request'', ''404'', ''false'']"
    by (simp add: show_int_def)
  show ?thesis
    using s error_always_throws [of "load_module (JBool False) Map.empty" "disable request_logger"
        "[JStr ''request'', JNum 404, JBool False]" "[]"
        "\<lparr> IS_DEV_v11 = JBool False, Logger_options_v11 = Map.empty \<rparr>"
        "[''request'', ''404'', ''false'']"]
    by simp
qed

text \<open>
  The claim as first stated fails for an argument list that holds \<open>null\<close>:
  \<open>error("a", null)\<close> throws the \<open>TypeError\<close> of \<open>null.toString()\<close>, not an \<open>Error\<close> with a
  joined message.
\<close>

theorem error_null_argument_TypeError:
  "error [JStr ''a'', JNull] [] = Inl TypeError \<and>
   error [JStr ''a'', JNull] [] \<noteq> Inl (Error ''a null'') \<and>
   invoke (load_module (JBool True) Map.empty) request_logger ''error'' [JStr ''a'', JNull] [] =
     Some (Inl TypeError) \<and>
   invoke_v11 \<lparr> IS_DEV_v11 = JBool True, Logger_options_v11 = Map.empty \<rparr> request_logger ''error'' [JStr ''a'', JNull] [] = Some (Inl TypeError)"
  by (simp add: error_def invoke_def invoke_v11_def)

text \<open>
  Claim C10. The \<open>Error\<close> with the space-joined message is thrown only when every argument
  has a textual conversion: if some argument is \<open>null\<close> or \<open>undefined\<close>, building the
  message throws a \<open>TypeError\<close> first. Exactly the argument lists with an argument
  without \<open>toString\<close> end in the \<open>TypeError\<close>; the others end in the \<open>Error\<close> with the
  joined message.
\<close>

theorem error_TypeError_without_toString:
  "(JNull \<in> set args \<or> JUndefined \<in> set args \<longrightarrow> error args c = Inl TypeError) \<and>
   (error args c = Inl TypeError \<longleftrightarrow> (\<exists>a \<in> set args. toString a = None)) \<and>
   (map toString args = map Some strs \<longrightarrow> error args c = Inl (Error (join '' '' strs)))"
proof -
  have "error args c = Inl TypeError" if "JNull \<in> set args \<or> JUndefined \<in> set args"
  proof -
    from that obtain a where "a \<in> set args" and "toString a = None" by auto
    then show ?thesis using error_TypeError_iff by blast
  qed
  then show ?thesis
    using error_TypeError_iff [of args c] error_throws_Error [of args strs c] by blast
qed

theorem error_TypeError_without_toString_witness:
  "(JNull \<in> set [JStr ''a'', JNull] \<or> JUndefined \<in> set [JStr ''a'', JNull]) \<and>
   (\<exists>a \<in> set [JStr ''a'', JNull]. toString a = None) \<and>
   error [JStr ''a'', JNull] [] = Inl TypeError \<and>
   map toString [JStr ''a'', JStr ''b''] = map Some [''a'', ''b''] \<and>
   error [JStr ''a'', JStr ''b''] [] = Inl (Error ''a b'')"
  using error_TypeError_without_toString [of "[JStr ''a'', JNull]" "[]" "[]"]
    error_TypeError_without_toString [of "[JStr ''a'', JStr ''b'']" "[]" "[''a'', ''b'']"]
  by simp

subsection \<open>The method \<open>table\<close>\<close>

text \<open>
  Claim C7. For every value \<open>data\<close>, an array such as \<open>[1, 2, 3]\<close> included, \<open>table(data)\<close>
  never takes the branch that falls back to \<open>log\<close>, because no value is an array and a
  plain object at once: it does what \<open>proxyRun\<close>, the function behind the pass-through
  methods, does for the console method \<open>table\<close>, under the activation check for \<open>table\<close>.
\<close>

theorem table_never_falls_back_to_log:
  "\<not> (isArray d \<and> isPlainObject d) \<and>
   table g this d c = proxyRun g this ''table'' [d] c \<and>
   proxyRun g this ''table'' [d] c =
     (if isActivated g this (Some ''table'') then c @ [(''table'', [d])] else c) \<and>
   table_v11 h this d c = proxyRun_v11 h this ''table'' [d] c \<and>
   proxyRun_v11 h this ''table'' [d] c =
     (if isActivated_v11 h this (Some ''table'') then c @ [(''table'', [d])] else c)"
  by (simp add: table_def table_v11_def not_array_and_object proxyRun_def proxyRun_v11_def
      console_call_def)

theorem table_never_falls_back_to_log_witness:
  "table (load_module (JBool True) Map.empty) request_logger (JArr [JNum 1, JNum 2, JNum 3]) [] =
     [(''table'', [JArr [JNum 1, JNum 2, JNum 3]])] \<and>
   table_v11 \<lparr> IS_DEV_v11 = JBool True, Logger_options_v11 = Map.empty \<rparr> request_logger (JArr [JNum 1, JNum 2, JNum 3]) [] =
     [(''table'', [JArr [JNum 1, JNum 2, JNum 3]])]"
  using table_never_falls_back_to_log [of "JArr [JNum 1, JNum 2, JNum 3]"
      "load_module (JBool True) Map.empty" request_logger "[]" "\<lparr> IS_DEV_v11 = JBool True, Logger_options_v11 = Map.empty \<rparr>"]
  by (simp add: isActivated_def isActivated_v11_def load_module_def request_logger_def
      dollar_debug_def dollar_name_def getprop_def)

subsection \<open>Static configuration\<close>

text \<open>
  Claim C5, as amended. Where the stored override has no entry for a key, \<open>configRules\<close>
  as written in 1.2.0 and in the source published with the documentation is
  last-write-wins: after two calls the key has the value of the later call, so after
  \<open>configRules({a: true})\<close> and \<open>configRules({a: false})\<close> the key \<open>a\<close> is false. The static
  \<open>config\<close> of \<open>src/index.js\<close> spreads the stored object over the new one, so a key
  not stored before keeps the value of the earlier call: after \<open>config({a: true})\<close> and
  \<open>config({a: false})\<close> the key \<open>a\<close> is true.
\<close>

theorem rule_configuration_write_order:
  "(LOGGER_RULES_v12 h k = None \<and> r2 k = Some v \<longrightarrow>
      rules_v12 (configRules_v12 r2 (configRules_v12 r1 h)) k = Some v) \<and>
   (LOGGER_RULES g k = None \<and> r2 k = Some v \<longrightarrow>
      Logger_rules (configRules_v132 r2 (configRules_v132 r1 g)) k = Some v) \<and>
   (Logger_options_v11 f k = None \<and> r1 k = Some v \<longrightarrow>
      Logger_options_v11 (config_v11 r2 (config_v11 r1 f)) k = Some v)"
  by (simp add: configRules_v12_def configRules_v132_def config_v11_def map_add_def)

theorem rule_configuration_write_order_witness:
  "LOGGER_RULES_v12 (load_module_v12 (JBool True) Map.empty) ''a'' = None \<and>
   [''a'' \<mapsto> JBool False] ''a'' = Some (JBool False) \<and>
   rules_v12 (configRules_v12 [''a'' \<mapsto> JBool False] (configRules_v12 [''a'' \<mapsto> JBool True]
     (load_module_v12 (JBool True) Map.empty))) ''a'' = Some (JBool False) \<and>
   LOGGER_RULES (load_module (JBool True) Map.empty) ''a'' = None \<and>
   Logger_rules (configRules_v132 [''a'' \<mapsto> JBool False] (configRules_v132 [''a'' \<mapsto> JBool True]
     (load_module (JBool True) Map.empty))) ''a'' = Some (JBool False) \<and>
   Logger_options_v11 \<lparr> IS_DEV_v11 = JBool True, Logger_options_v11 = Map.empty \<rparr> ''a'' = None \<and>
   [''a'' \<mapsto> JBool True] ''a'' = Some (JBool True) \<and>
   Logger_options_v11 (config_v11 [''a'' \<mapsto> JBool False] (config_v11 [''a'' \<mapsto> JBool True]
     \<lparr> IS_DEV_v11 = JBool True, Logger_options_v11 = Map.empty \<rparr>)) ''a'' = Some (JBool True)"
  using rule_configuration_write_order [of "load_module_v12 (JBool True) Map.empty" "''a''"
      "[''a'' \<mapsto> JBool False]" "JBool False" "[''a'' \<mapsto> JBool True]"
      "load_module (JBool True) Map.empty" "\<lparr> IS_DEV_v11 = JBool True, Logger_options_v11 = Map.empty \<rparr>"]
    rule_configuration_write_order [of "load_module_v12 (JBool True) Map.empty" "''a''"
      "[''a'' \<mapsto> JBool False]" "JBool True" "[''a'' \<mapsto> JBool True]"
      "load_module (JBool True) Map.empty" "\<lparr> IS_DEV_v11 = JBool True, Logger_options_v11 = Map.empty \<rparr>"]
  by (simp add: load_module_v12_def load_module_def)

text \<open>
  The claim as first stated fails for the static \<open>config\<close> of \<open>src/index.js\<close>: with
  nothing stored, after \<open>config({a: true})\<close> and \<open>config({a: false})\<close> the key \<open>a\<close> reads
  true.
\<close>

theorem config_v11_keeps_first_entry:
  "getprop (Logger_options_v11 (config_v11 [''a'' \<mapsto> JBool False]
     (config_v11 [''a'' \<mapsto> JBool True] \<lparr> IS_DEV_v11 = JBool True, Logger_options_v11 = Map.empty \<rparr>))) ''a'' = JBool True"
  by (simp add: config_v11_def getprop_def)

text \<open>
  Claim C6. The stored override wins over a call of \<open>configRules\<close>: a key that the
  override maps to a value has that value after any call, in the variable \<open>_rules\<close> of
  1.2.0, in the object that \<open>configRules\<close> writes since 1.3.0, in \<open>Logger.rules\<close>
  after any sequence of calls since the module was loaded, and in \<open>Logger.rules\<close> as
  the published source of 1.3.2 assigns it. With the override
  \<open>{a: true}\<close>, the key \<open>a\<close> is true after \<open>configRules({a: false})\<close>.
\<close>

theorem environment_override_wins:
  "(LOGGER_RULES_v12 h k = Some v \<longrightarrow> rules_v12 (configRules_v12 r h) k = Some v) \<and>
   (LOGGER_RULES g k = Some v \<longrightarrow>
      self_rules (configRules r g) \<noteq> None \<and>
      spread_obj (self_rules (configRules r g)) k = Some v) \<and>
   (env k = Some v \<longrightarrow>
      Logger_rules (configRules r (fold configRules rs (load_module d env))) k = Some v) \<and>
   (LOGGER_RULES g k = Some v \<longrightarrow> Logger_rules (configRules_v132 r g) k = Some v)"
  by (simp add: configRules_v12_def configRules_def configRules_v132_def spread_obj_def
      Logger_rules_fold_configRules load_module_def)

theorem environment_override_wins_witness:
  "LOGGER_RULES_v12 (load_module_v12 (JBool True) [''a'' \<mapsto> JBool True]) ''a'' =
     Some (JBool True) \<and>
   rules_v12 (configRules_v12 [''a'' \<mapsto> JBool False]
     (load_module_v12 (JBool True) [''a'' \<mapsto> JBool True])) ''a'' = Some (JBool True) \<and>
   LOGGER_RULES (load_module (JBool True) [''a'' \<mapsto> JBool True]) ''a'' = Some (JBool True) \<and>
   spread_obj (self_rules (configRules [''a'' \<mapsto> JBool False]
     (load_module (JBool True) [''a'' \<mapsto> JBool True]))) ''a'' = Some (JBool True) \<and>
   Logger_rules (configRules [''a'' \<mapsto> JBool False]
     (fold configRules [] (load_module (JBool True) [''a'' \<mapsto> JBool True]))) ''a'' =
     Some (JBool True) \<and>
   Logger_rules (configRules_v132 [''a'' \<mapsto> JBool False]
     (load_module (JBool True) [''a'' \<mapsto> JBool True])) ''a'' = Some (JBool True)"
  using environment_override_wins [of "load_module_v12 (JBool True) [''a'' \<mapsto> JBool True]"
      "''a''" "JBool True" "[''a'' \<mapsto> JBool False]"
      "load_module (JBool True) [''a'' \<mapsto> JBool True]" "[''a'' \<mapsto> JBool True]" "[]"
      "JBool True"]
  by (simp add: load_module_v12_def load_module_def)

text \<open>
  Claim C9, at the input where the code since 1.3.0 departs from it: after
  \<open>Logger.config({debug: false})\<close> an instance made by \<open>new Logger('request')\<close> has
  \<open>debug = true\<close>. The constructor reads \<open>Logger.options\<close>, but \<open>config\<close> has written the
  property \<open>options\<close> of the global object, not the static field.
\<close>

theorem config_leaves_constructor_defaults:
  "dollar_debug (constructor (config \<lparr> name_opt = None, debug_opt = Some False \<rparr>
      (load_module (JBool True) Map.empty)) (Inl ''request'')) = True \<and>
   self_options (config \<lparr> name_opt = None, debug_opt = Some False \<rparr>
      (load_module (JBool True) Map.empty)) = Some \<lparr> name_opt = None, debug_opt = Some False \<rparr> \<and>
   dollar_debug (constructor_v12 (config_v12 \<lparr> name_opt = None, debug_opt = Some False \<rparr>
      (load_module_v12 (JBool True) Map.empty)) (Inl ''request'')) = False \<and>
   dollar_debug (constructor (config_v132 \<lparr> name_opt = None, debug_opt = Some False \<rparr>
      (load_module (JBool True) Map.empty)) (Inl ''request'')) = False"
  by (simp add: constructor_def constructor_v12_def load_module_def load_module_v12_def
      dollar_debug_def config_def config_v12_def config_v132_def spread_patch_def
      spread_options_def)

end
